theory Spec2Isabelle
  imports Main "HOL-Library.Multiset"
begin

section \<open>Data model\<close>

text \<open>
  A numpy array is its shape and its elements in row-major order. The element type is left
  open: nothing below computes with weights.
\<close>

record 'a ndarray =
  shape :: "nat list"
  data :: "'a list"

text \<open>A Keras layer, as far as the pruning step reads it: \<open>layer.get_weights()\<close>.\<close>

record 'a layer =
  layer_name :: string
  get_weights :: "'a ndarray list"

text \<open>A job of the surgeon: \<open>surgeon.add_job(name, layer, channels=...)\<close>.\<close>

datatype 'a job = Job (job_name: string) (job_layer: "'a layer") (channels: "nat list")

text \<open>
  Every place where \<open>run_pruning_for_conv2d_layer\<close> can raise, in the order of the source:
  \<open>get_weights()[0]\<close>, the unpacking of \<open>shape\<close> into four names, \<open>reshape(nb_channels, -1)\<close>,
  \<open>kmeans.fit\<close>, \<open>channel_indices_to_keep[i]\<close> in the fill loop, and the final guard.
\<close>

datatype error =
    IndexError_weights
  | ValueError_unpack
  | ValueError_reshape
  | KMeansError string
  | IndexError_keep
  | ValueError_count int nat

text \<open>
  What the call can change: the state of numpy's global random source, the standard output,
  and the surgeon's list of jobs.
\<close>

record ('a, 'r) world =
  rng :: 'r
  printed :: "string list"
  jobs :: "'a job list"

text \<open>
  The collaborators that live outside the file: the two helpers inherited from
  \<open>BasePruning\<close>, scikit-learn's clustering and argmin, the iteration order of a Python
  set, and \<open>np.random.shuffle\<close>. They are parameters of the model.
  \<open>apply_fuzz\<close> works in place, so it yields new elements for an array of the same shape.
\<close>

record ('a, 'c, 'f, 'r) env =
  clustering_factor :: 'f
  calculate_number_of_channels_to_keep :: "'f \<Rightarrow> nat \<Rightarrow> int \<times> int"
  apply_fuzz :: "'a ndarray \<Rightarrow> 'r \<Rightarrow> 'a list \<times> 'r"
  kmeans_fit :: "int \<Rightarrow> 'a ndarray \<Rightarrow> 'r \<Rightarrow> (string + 'c) \<times> 'r"
  pairwise_distances_argmin :: "'c \<Rightarrow> 'a ndarray \<Rightarrow> nat list"
  set_to_list :: "nat set \<Rightarrow> nat list"
  shuffle :: "nat list \<Rightarrow> 'r \<Rightarrow> nat list \<times> 'r"

section \<open>Python and numpy primitives\<close>

text \<open>\<open>height, width, input_channels, nb_channels = a.shape\<close>\<close>

fun unpack4 :: "nat list \<Rightarrow> error + nat \<times> nat \<times> nat \<times> nat" where
  "unpack4 [height, width, input_channels, nb_channels] =
     Inr (height, width, input_channels, nb_channels)"
| "unpack4 _ = Inl ValueError_unpack"

text \<open>
  \<open>a.transpose(3, 0, 1, 2).reshape(nb_channels, -1)\<close> on an array of shape
  \<open>(height, width, input_channels, nb_channels)\<close>: row \<open>c\<close> holds the elements whose last index
  is \<open>c\<close>, in row-major order of the other three. numpy cannot infer the \<open>-1\<close> when
  \<open>nb_channels\<close> is 0 and raises.
\<close>

definition transpose_reshape :: "nat \<Rightarrow> nat \<Rightarrow> nat \<Rightarrow> nat \<Rightarrow> 'a ndarray \<Rightarrow> error + 'a ndarray" where
  "transpose_reshape height width input_channels nb_channels a =
     (if nb_channels = 0 then Inl ValueError_reshape
      else
        let features = height * width * input_channels
        in Inr \<lparr>shape = [nb_channels, features],
                data = concat (map (\<lambda>c. map (\<lambda>j. data a ! (j * nb_channels + c)) [0..<features])
                                   [0..<nb_channels])\<rparr>)"

text \<open>\<open>len(a)\<close>: the first dimension.\<close>

definition len_nd :: "'a ndarray \<Rightarrow> nat" where
  "len_nd a = (case shape a of [] \<Rightarrow> 0 | n # _ \<Rightarrow> n)"

text \<open>\<open>xs[:k]\<close>: a negative \<open>k\<close> counts from the end.\<close>

definition slice_to :: "'a list \<Rightarrow> int \<Rightarrow> 'a list" where
  "slice_to xs k = (if k < 0 then take (nat (int (length xs) + k)) xs else take (nat k) xs)"

text \<open>\<open>"{0}".format(n)\<close> for a natural number.\<close>

fun str_nat :: "nat \<Rightarrow> string" where
  "str_nat n =
     (if n < 10 then [''0123456789'' ! n]
      else str_nat (n div 10) @ [''0123456789'' ! (n mod 10)])"

declare str_nat.simps [simp del]

text \<open>
  \<open>for i in range(diff): channel_indices_to_prune.append(channel_indices_to_keep[i])\<close>,
  the loop over the list of indices \<open>range(diff)\<close>.
\<close>

fun append_loop :: "nat list \<Rightarrow> nat list \<Rightarrow> nat list \<Rightarrow> error + nat list" where
  "append_loop to_keep to_prune [] = Inr to_prune"
| "append_loop to_keep to_prune (i # is) =
     (if i < length to_keep
      then append_loop to_keep (to_prune @ [to_keep ! i]) is
      else Inl IndexError_keep)"

section \<open>\<open>KMeansFilterPruning.run_pruning_for_conv2d_layer\<close>\<close>

text \<open>
  Lines 29 to 40: everything before \<open>kmeans.fit\<close>. The result is \<open>nb_channels\<close>,
  \<open>nb_of_clusters\<close> and the fuzzed matrix.
\<close>

definition prepare ::
  "('a, 'c, 'f, 'r) env \<Rightarrow> 'a layer \<Rightarrow> ('a, 'r) world
     \<Rightarrow> (error + nat \<times> int \<times> 'a ndarray) \<times> ('a, 'r) world" where
  "prepare env layer w =
     (case get_weights layer of
        [] \<Rightarrow> (Inl IndexError_weights, w)
      | layer_weight_mtx # _ \<Rightarrow>
          (case unpack4 (shape layer_weight_mtx) of
             Inl e \<Rightarrow> (Inl e, w)
           | Inr (height, width, input_channels, nb_channels) \<Rightarrow>
               (let nb_of_clusters =
                      fst (calculate_number_of_channels_to_keep env (clustering_factor env) nb_channels)
                in case transpose_reshape height width input_channels nb_channels layer_weight_mtx of
                     Inl e \<Rightarrow> (Inl e, w)
                   | Inr layer_weight_mtx_reshaped \<Rightarrow>
                       (let (fuzzed, r) = apply_fuzz env layer_weight_mtx_reshaped (rng w)
                        in (Inr (nb_channels, nb_of_clusters,
                                 layer_weight_mtx_reshaped\<lparr>data := fuzzed\<rparr>),
                            w\<lparr>rng := r\<rparr>)))))"

text \<open>
  Lines 41 to 46: the clustering and the closest row to each centre. The result is
  \<open>len(layer_weight_mtx_reshaped)\<close>, \<open>nb_of_clusters\<close> and
  \<open>closest_point_to_cluster_center_indices\<close>.
\<close>

definition cluster_stage ::
  "('a, 'c, 'f, 'r) env \<Rightarrow> 'a layer \<Rightarrow> ('a, 'r) world
     \<Rightarrow> (error + nat \<times> int \<times> nat list) \<times> ('a, 'r) world" where
  "cluster_stage env layer w =
     (case prepare env layer w of
        (Inl e, w1) \<Rightarrow> (Inl e, w1)
      | (Inr (nb_channels, nb_of_clusters, layer_weight_mtx_reshaped), w1) \<Rightarrow>
          (case kmeans_fit env nb_of_clusters layer_weight_mtx_reshaped (rng w1) of
             (Inl msg, r) \<Rightarrow> (Inl (KMeansError msg), w1\<lparr>rng := r\<rparr>)
           | (Inr cluster_centers, r) \<Rightarrow>
               (Inr (len_nd layer_weight_mtx_reshaped, nb_of_clusters,
                     pairwise_distances_argmin env cluster_centers layer_weight_mtx_reshaped),
                w1\<lparr>rng := r\<rparr>)))"

text \<open>Lines 48 to 51: the two lists made from sets.\<close>

definition channel_indices_to_keep :: "('a, 'c, 'f, 'r) env \<Rightarrow> nat list \<Rightarrow> nat list" where
  "channel_indices_to_keep env closest = set_to_list env (set closest)"

definition channel_indices_to_prune :: "('a, 'c, 'f, 'r) env \<Rightarrow> nat \<Rightarrow> nat list \<Rightarrow> nat list" where
  "channel_indices_to_prune env n closest = set_to_list env (set [0..<n] - set closest)"

text \<open>Lines 54 to 69: truncation, fill, and the guard on the final length.\<close>

definition reconcile ::
  "('a, 'c, 'f, 'r) env \<Rightarrow> int \<Rightarrow> nat list \<Rightarrow> nat list \<Rightarrow> ('a, 'r) world
     \<Rightarrow> (error + nat list) \<times> ('a, 'r) world" where
  "reconcile env nb_of_clusters to_prune to_keep w =
     (let (res, w1) =
        (if int (length to_prune) > nb_of_clusters then
           (Inr (slice_to to_prune nb_of_clusters),
            w\<lparr>printed := printed w @
                 [''Number of selected channels for pruning is greater then number of clusters'',
                  ''Discarding a few pruneable channels'']\<rparr>)
         else if int (length to_prune) < nb_of_clusters then
           (let diff = nat (nb_of_clusters - int (length to_prune));
                (shuffled, r) = shuffle env to_keep (rng w)
            in (append_loop shuffled to_prune [0..<diff],
                w\<lparr>rng := r,
                  printed := printed w @
                    [''Number of selected channels for pruning is less than the number of clusters'',
                     ''Randomly adding '' @ str_nat diff @ '' channels for pruning'']\<rparr>))
         else (Inr to_prune, w))
      in case res of
           Inl e \<Rightarrow> (Inl e, w1)
         | Inr final \<Rightarrow>
             if int (length final) \<noteq> nb_of_clusters
             then (Inl (ValueError_count nb_of_clusters (length final)), w1)
             else (Inr final, w1))"

text \<open>The whole method: it returns \<open>len(channel_indices_to_prune)\<close> after adding the job.\<close>

definition run_pruning_for_conv2d_layer ::
  "('a, 'c, 'f, 'r) env \<Rightarrow> 'a layer \<Rightarrow> ('a, 'r) world \<Rightarrow> (error + nat) \<times> ('a, 'r) world" where
  "run_pruning_for_conv2d_layer env layer w =
     (case cluster_stage env layer w of
        (Inl e, w1) \<Rightarrow> (Inl e, w1)
      | (Inr (n, nb_of_clusters, closest), w1) \<Rightarrow>
          (case reconcile env nb_of_clusters
                  (channel_indices_to_prune env n closest)
                  (channel_indices_to_keep env closest) w1 of
             (Inl e, w2) \<Rightarrow> (Inl e, w2)
           | (Inr final, w2) \<Rightarrow>
               (Inr (length final),
                w2\<lparr>jobs := jobs w2 @ [Job ''delete_channels'' layer final]\<rparr>)))"

section \<open>What the proofs assume of the collaborators\<close>

text \<open>
  Listing a Python set gives each member once, in an order the language does not fix;
  \<open>np.random.shuffle\<close> permutes its list.
\<close>

definition set_to_list_ok :: "('a, 'c, 'f, 'r) env \<Rightarrow> bool" where
  "set_to_list_ok env \<longleftrightarrow>
     (\<forall>S. finite S \<longrightarrow> distinct (set_to_list env S) \<and> set (set_to_list env S) = S)"

definition shuffle_ok :: "('a, 'c, 'f, 'r) env \<Rightarrow> bool" where
  "shuffle_ok env \<longleftrightarrow> (\<forall>xs r. mset (fst (shuffle env xs r)) = mset xs)"

abbreviation discard_messages :: "string list" where
  "discard_messages \<equiv>
     [''Number of selected channels for pruning is greater then number of clusters'',
      ''Discarding a few pruneable channels'']"

abbreviation fill_messages :: "nat \<Rightarrow> string list" where
  "fill_messages diff \<equiv>
     [''Number of selected channels for pruning is less than the number of clusters'',
      ''Randomly adding '' @ str_nat diff @ '' channels for pruning'']"

section \<open>A concrete environment for the examples\<close>

text \<open>
  The helper returns the target \<open>K\<close>, the fuzz leaves the elements as they are, the
  clustering call has the outcome \<open>fit\<close> (an error message, or the representatives, which
  the argmin hands on), a set is listed in ascending order and the shuffle reverses. The
  random source counts the calls that drew from it.
\<close>

definition stub_env :: "int \<Rightarrow> (string + nat list) \<Rightarrow> (int, nat list, unit, nat) env" where
  "stub_env K fit =
     \<lparr>clustering_factor = (),
      calculate_number_of_channels_to_keep = (\<lambda>_ n. (K, int n - K)),
      apply_fuzz = (\<lambda>a r. (data a, Suc r)),
      kmeans_fit = (\<lambda>k a r. (fit, Suc r)),
      pairwise_distances_argmin = (\<lambda>c a. c),
      set_to_list = sorted_list_of_set,
      shuffle = (\<lambda>xs r. (rev xs, Suc r))\<rparr>"

text \<open>A convolution with a 1 x 1 kernel, one input channel and \<open>n\<close> filters.\<close>

definition conv_layer :: "nat \<Rightarrow> int list \<Rightarrow> int layer" where
  "conv_layer n d = \<lparr>layer_name = ''conv'', get_weights = [\<lparr>shape = [1, 1, 1, n], data = d\<rparr>]\<rparr>"


definition world0 :: "(int, nat) world" where
  "world0 = \<lparr>rng = 0, printed = [], jobs = []\<rparr>"

section \<open>The primitives\<close>

lemma unpack4_Inr_iff:
  "unpack4 s = Inr (h, wd, i, n) \<longleftrightarrow> s = [h, wd, i, n]"
  by (induction s rule: unpack4.induct) auto

lemma unpack4_Inl:
  "unpack4 s = Inl e \<Longrightarrow> e = ValueError_unpack \<and> length s \<noteq> 4"
  by (induction s rule: unpack4.induct) auto


lemma append_loop_ok:
  "\<forall>i\<in>set is. i < length ks \<Longrightarrow> append_loop ks ps is = Inr (ps @ map ((!) ks) is)"
  by (induction "is" arbitrary: ps) auto

lemma append_loop_fail:
  "\<exists>i\<in>set is. \<not> i < length ks \<Longrightarrow> append_loop ks ps is = Inl IndexError_keep"
  by (induction "is" arbitrary: ps) auto

lemma append_loop_Inr_length:
  "append_loop ks ps is = Inr r \<Longrightarrow> length r = length ps + length is"
  by (induction "is" arbitrary: ps) (auto split: if_splits)

lemma append_loop_Inl:
  "append_loop ks ps is = Inl e \<Longrightarrow> e = IndexError_keep"
  by (induction "is" arbitrary: ps) (auto split: if_splits)

lemma map_nth_upt_take: "d \<le> length ks \<Longrightarrow> map ((!) ks) [0..<d] = take d ks"
  by (simp add: list_eq_iff_nth_eq)

lemma append_loop_range:
  "d \<le> length ks \<Longrightarrow> append_loop ks ps [0..<d] = Inr (ps @ take d ks)"
  using append_loop_ok [of "[0..<d]" ks ps] by (simp add: map_nth_upt_take)

lemma append_loop_range_fail:
  "length ks < d \<Longrightarrow> append_loop ks ps [0..<d] = Inl IndexError_keep"
  by (rule append_loop_fail) (auto intro: bexI [of _ "length ks"])

lemma slice_to_nonneg: "0 \<le> k \<Longrightarrow> slice_to xs k = take (nat k) xs"
  by (simp add: slice_to_def)

section \<open>The stages before the reconciliation\<close>

lemma prepare_Inr:
  assumes "prepare env layer w = (Inr (n, K, M), w1)"
  shows "\<exists>t ts h wd i. get_weights layer = t # ts \<and> shape t = [h, wd, i, n] \<and> 0 < n
           \<and> K = fst (calculate_number_of_channels_to_keep env (clustering_factor env) n)
           \<and> len_nd M = n \<and> jobs w1 = jobs w \<and> printed w1 = printed w"
  using assms
  by (auto simp: prepare_def Let_def transpose_reshape_def len_nd_def unpack4_Inr_iff
      split: list.splits sum.splits prod.splits if_splits)

lemma prepare_Inl:
  assumes "prepare env layer w = (Inl e, w1)"
  shows "w1 = w \<and> e \<in> {IndexError_weights, ValueError_unpack, ValueError_reshape}"
  using assms
  by (auto simp: prepare_def Let_def transpose_reshape_def
      split: list.splits sum.splits prod.splits if_splits dest: unpack4_Inl)


lemma cluster_stage_Inr:
  assumes "cluster_stage env layer w = (Inr (n, K, closest), w1)"
  shows "\<exists>t ts h wd i. get_weights layer = t # ts \<and> shape t = [h, wd, i, n] \<and> 0 < n
           \<and> K = fst (calculate_number_of_channels_to_keep env (clustering_factor env) n)
           \<and> jobs w1 = jobs w \<and> printed w1 = printed w"
  using assms
  by (auto simp: cluster_stage_def split: sum.splits prod.splits dest!: prepare_Inr)

lemma cluster_stage_Inl:
  assumes "cluster_stage env layer w = (Inl e, w1)"
  shows "e \<noteq> ValueError_count a b \<and> e \<noteq> IndexError_keep
           \<and> jobs w1 = jobs w \<and> printed w1 = printed w"
  using assms
  by (auto simp: cluster_stage_def split: sum.splits prod.splits dest!: prepare_Inr prepare_Inl)

section \<open>The two lists\<close>

lemma keep_props:
  "set_to_list_ok env \<Longrightarrow>
     distinct (channel_indices_to_keep env c) \<and> set (channel_indices_to_keep env c) = set c"
  by (simp add: set_to_list_ok_def channel_indices_to_keep_def)

lemma prune_props:
  "set_to_list_ok env \<Longrightarrow>
     distinct (channel_indices_to_prune env n c)
     \<and> set (channel_indices_to_prune env n c) = {0..<n} - set c"
  by (simp add: set_to_list_ok_def channel_indices_to_prune_def)

lemma keep_prune_length:
  assumes ok: "set_to_list_ok env" and sub: "set c \<subseteq> {..<n}"
  shows "length (channel_indices_to_prune env n c) + length (channel_indices_to_keep env c) = n"
proof -
  have k: "length (channel_indices_to_keep env c) = card (set c)"
    using keep_props [OF ok, of c] distinct_card by fastforce
  have p: "length (channel_indices_to_prune env n c) = card ({0..<n} - set c)"
    using prune_props [OF ok, of n c] distinct_card by fastforce
  have "set c \<subseteq> {0..<n}" using sub by auto
  then have "card ({0..<n} - set c) + card (set c) = card {0..<n}"
    by (metis card_Diff_subset List.finite_set card_mono finite_atLeastLessThan le_add_diff_inverse2)
  then show ?thesis using k p by simp
qed

lemma shuffle_props:
  assumes "shuffle_ok env" and "shuffle env xs r = (sh, r')"
  shows "mset sh = mset xs" and "length sh = length xs" and "set sh = set xs"
    and "distinct sh = distinct xs"
proof -
  show m: "mset sh = mset xs" using assms by (metis fst_conv shuffle_ok_def)
  show "length sh = length xs" using m by (rule mset_eq_length)
  show "set sh = set xs" using m by (rule mset_eq_setD)
  show "distinct sh = distinct xs" using m by (rule mset_eq_imp_distinct_iff)
qed

section \<open>The branches of the reconciliation\<close>

lemma reconcile_truncate:
  assumes "K < int (length ps)" "0 \<le> K"
  shows "reconcile env K ps ks w =
           (Inr (take (nat K) ps), w\<lparr>printed := printed w @ discard_messages\<rparr>)"
  using assms by (simp add: reconcile_def slice_to_nonneg)


lemma reconcile_fill:
  assumes "int (length ps) < K" and "shuffle env ks (rng w) = (sh, r)"
    and "nat (K - int (length ps)) \<le> length sh"
  shows "reconcile env K ps ks w =
           (Inr (ps @ take (nat (K - int (length ps))) sh),
            w\<lparr>rng := r, printed := printed w @ fill_messages (nat (K - int (length ps)))\<rparr>)"
  using assms by (simp add: reconcile_def Let_def append_loop_range)

lemma reconcile_fill_fail:
  assumes "int (length ps) < K" and "shuffle env ks (rng w) = (sh, r)"
    and "length sh < nat (K - int (length ps))"
  shows "reconcile env K ps ks w =
           (Inl IndexError_keep,
            w\<lparr>rng := r, printed := printed w @ fill_messages (nat (K - int (length ps)))\<rparr>)"
  using assms by (simp add: reconcile_def Let_def append_loop_range_fail)

lemma reconcile_negative:
  assumes "K < 0"
  shows "reconcile env K ps ks w =
           (Inl (ValueError_count K (nat (int (length ps) + K))),
            w\<lparr>printed := printed w @ discard_messages\<rparr>)"
  using assms by (auto simp: reconcile_def slice_to_def)

lemma reconcile_Inr_length:
  "reconcile env K ps ks w = (Inr final, w') \<Longrightarrow> int (length final) = K"
  by (auto simp: reconcile_def Let_def split: if_splits prod.splits sum.splits)

lemma reconcile_Inr_jobs:
  "reconcile env K ps ks w = (Inr final, w') \<Longrightarrow> jobs w' = jobs w"
  by (auto simp: reconcile_def Let_def split: if_splits prod.splits sum.splits)

lemma reconcile_no_count_error:
  assumes "0 \<le> K"
  shows "fst (reconcile env K ps ks w) \<noteq> Inl (ValueError_count a b)"
  using assms
  by (auto simp: reconcile_def Let_def slice_to_nonneg split: if_splits prod.splits sum.splits
      dest!: append_loop_Inr_length append_loop_Inl)

section \<open>The method, stage by stage\<close>

lemma run_after_stage:
  assumes "cluster_stage env layer w = (Inr (n, K, closest), w1)"
    and "reconcile env K (channel_indices_to_prune env n closest)
           (channel_indices_to_keep env closest) w1 = (Inr final, w2)"
  shows "run_pruning_for_conv2d_layer env layer w =
           (Inr (length final), w2\<lparr>jobs := jobs w2 @ [Job ''delete_channels'' layer final]\<rparr>)"
  using assms by (simp add: run_pruning_for_conv2d_layer_def)

lemma run_after_stage_fail:
  assumes "cluster_stage env layer w = (Inr (n, K, closest), w1)"
    and "reconcile env K (channel_indices_to_prune env n closest)
           (channel_indices_to_keep env closest) w1 = (Inl e, w2)"
  shows "run_pruning_for_conv2d_layer env layer w = (Inl e, w2)"
  using assms by (simp add: run_pruning_for_conv2d_layer_def)

lemma run_stage_fail:
  assumes "cluster_stage env layer w = (Inl e, w1)"
  shows "run_pruning_for_conv2d_layer env layer w = (Inl e, w1)"
  using assms by (simp add: run_pruning_for_conv2d_layer_def)







section \<open>The concrete environment\<close>

lemma stub_set_to_list_ok: "set_to_list_ok (stub_env K fit)"
  by (simp add: set_to_list_ok_def stub_env_def)

lemma stub_shuffle_ok: "shuffle_ok (stub_env K fit)"
  by (simp add: shuffle_ok_def stub_env_def)

lemma stub_fields:
  "set_to_list (stub_env K fit) = sorted_list_of_set"
  "shuffle (stub_env K fit) = (\<lambda>xs r. (rev xs, Suc r))"
  "calculate_number_of_channels_to_keep (stub_env K fit) = (\<lambda>_ n. (K, int n - K))"
  by (simp_all add: stub_env_def)

lemma stub_stage:
  "0 < n \<Longrightarrow> cluster_stage (stub_env K (Inr c)) (conv_layer n d) world0 =
     (Inr (n, K, c), world0\<lparr>rng := 2\<rparr>)"
  by (simp add: cluster_stage_def prepare_def conv_layer_def stub_env_def transpose_reshape_def
      len_nd_def world0_def)


lemma stub_prune_4_012: "channel_indices_to_prune (stub_env K fit) 4 [0, 1, 2] = [3]"
proof -
  have "{0..<4::nat} - {0, Suc 0, 2} = {3}" by auto
  then show ?thesis by (simp add: channel_indices_to_prune_def stub_fields)
qed

lemma stub_keep_012: "channel_indices_to_keep (stub_env K fit) [0, 1, 2] = [0, 1, 2]"
  by (simp add: channel_indices_to_keep_def stub_fields)

lemma stub_prune_4_2: "channel_indices_to_prune (stub_env K fit) 4 [2] = [0, 1, 3]"
proof -
  have "{0..<4::nat} - {2} = {0, 1, 3}" by auto
  then show ?thesis by (simp add: channel_indices_to_prune_def stub_fields)
qed

text \<open>Four filters, three clusters with representatives 0, 1 and 2: two indices are added.\<close>

lemma stub_run_fill:
  "run_pruning_for_conv2d_layer (stub_env 3 (Inr [0, 1, 2])) (conv_layer 4 [10, 20, 30, 40]) world0 =
     (Inr 3, \<lparr>rng = 3, printed = fill_messages 2,
              jobs = [Job ''delete_channels'' (conv_layer 4 [10, 20, 30, 40]) [3, 2, 1]]\<rparr>)"
proof -
  let ?env = "stub_env 3 (Inr [0, 1, 2])"
  have st: "cluster_stage ?env (conv_layer 4 [10, 20, 30, 40]) world0 =
     (Inr (4, 3, [0, 1, 2]), world0\<lparr>rng := 2\<rparr>)"
    by (rule stub_stage) simp
  have r: "reconcile ?env 3 [3] [0, 1, 2] (world0\<lparr>rng := 2\<rparr>) =
     (Inr [3, 2, 1], \<lparr>rng = 3, printed = fill_messages 2, jobs = []\<rparr>)"
    by (simp add: reconcile_def stub_fields Let_def str_nat.simps world0_def upt_rec)
  show ?thesis
    using run_after_stage [OF st, unfolded stub_prune_4_012 stub_keep_012, OF r] by simp
qed




section \<open>The claims\<close>










text \<open>
  C5. For a 4-D kernel with \<open>n\<close> filters and a target \<open>K\<close> from the helper with
  \<open>0 < K \<le> n\<close>, the method never raises the error of the final count guard, whatever the
  collaborators do; the reconciliation alone never raises it either, on any two lists.
\<close>

theorem count_guard_unreachable:
  assumes "get_weights layer = t # ts" and "shape t = [h, wd, i, n]"
    and "K = fst (calculate_number_of_channels_to_keep env (clustering_factor env) n)"
    and "0 < K" and "K \<le> int n"
  shows "fst (run_pruning_for_conv2d_layer env layer w) \<noteq> Inl (ValueError_count a b)
         \<and> fst (reconcile env K ps ks w1) \<noteq> Inl (ValueError_count a b)"
proof -
  have K0: "0 \<le> K" using assms(4) by simp
  have rec: "fst (reconcile env K ps' ks' w') \<noteq> Inl (ValueError_count a b)" for ps' ks' w'
    using K0 by (rule reconcile_no_count_error)
  have "fst (run_pruning_for_conv2d_layer env layer w) \<noteq> Inl (ValueError_count a b)"
  proof (cases "cluster_stage env layer w")
    case (Pair res w2)
    show ?thesis
    proof (cases res)
      case (Inl e)
      then have "run_pruning_for_conv2d_layer env layer w = (Inl e, w2)"
        using Pair by (simp add: run_stage_fail)
      moreover have "e \<noteq> ValueError_count a b"
        using cluster_stage_Inl [of env layer w e w2 a b] Pair Inl by simp
      ultimately show ?thesis by simp
    next
      case (Inr x)
      obtain n' K' closest where x: "x = (n', K', closest)" by (cases x)
      have st: "cluster_stage env layer w = (Inr (n', K', closest), w2)"
        using Pair Inr x by simp
      have "n' = n" and "K' = K"
        using cluster_stage_Inr [OF st] assms(1,2,3) by auto
      then have "fst (reconcile env K' (channel_indices_to_prune env n' closest)
                   (channel_indices_to_keep env closest) w2) \<noteq> Inl (ValueError_count a b)"
        using rec by simp
      then show ?thesis
        using st by (auto simp: run_pruning_for_conv2d_layer_def split: sum.splits prod.splits)
    qed
  qed
  then show ?thesis using rec by simp
qed

theorem count_guard_unreachable_witness:
  "get_weights (conv_layer 4 [10, 20, 30, 40]) = [\<lparr>shape = [1, 1, 1, 4], data = [10, 20, 30, 40]\<rparr>]
   \<and> shape \<lparr>shape = [1, 1, 1, 4], data = [10, 20, 30, 40::int]\<rparr> = [1, 1, 1, 4]
   \<and> (3::int) = fst (calculate_number_of_channels_to_keep (stub_env 3 (Inr [0, 1, 2]))
                      (clustering_factor (stub_env 3 (Inr [0, 1, 2]))) 4)
   \<and> (0::int) < 3 \<and> (3::int) \<le> int 4
   \<and> fst (run_pruning_for_conv2d_layer (stub_env 3 (Inr [0, 1, 2]))
            (conv_layer 4 [10, 20, 30, 40]) world0) \<noteq> Inl (ValueError_count 3 1)
   \<and> fst (reconcile (stub_env 3 (Inr [0, 1, 2])) 3 [3] [0, 1, 2] world0) \<noteq> Inl (ValueError_count 3 1)"
proof -
  have g: "get_weights (conv_layer 4 [10, 20, 30, 40]) =
             [\<lparr>shape = [1, 1, 1, 4], data = [10, 20, 30, 40]\<rparr>]"
    by (simp add: conv_layer_def)
  have s: "shape \<lparr>shape = [1, 1, 1, 4], data = [10, 20, 30, 40::int]\<rparr> = [1, 1, 1, 4]" by simp
  have k: "(3::int) = fst (calculate_number_of_channels_to_keep (stub_env 3 (Inr [0, 1, 2]))
                      (clustering_factor (stub_env 3 (Inr [0, 1, 2]))) 4)"
    by (simp add: stub_fields)
  show ?thesis
    using count_guard_unreachable [OF g s k, of world0 3 1 "[3]" "[0, 1, 2]" world0] g s k
    by simp
qed

text \<open>
  C6. When the clustering stage has returned and the initial prune list is longer than the
  target \<open>K \<ge> 0\<close>, the method prints the two messages of the branch, submits the first \<open>K\<close>
  entries of that list in its own order and returns \<open>K\<close>; no discarded index is among the
  submitted ones.
\<close>

theorem truncation_takes_first_K:
  assumes stage: "cluster_stage env layer w = (Inr (n, K, closest), w1)"
    and ok: "set_to_list_ok env"
    and K: "0 \<le> K"
    and more: "K < int (length (channel_indices_to_prune env n closest))"
  shows "run_pruning_for_conv2d_layer env layer w =
           (Inr (nat K),
            w1\<lparr>printed := printed w1 @ discard_messages,
               jobs := jobs w1 @ [Job ''delete_channels'' layer
                                   (take (nat K) (channel_indices_to_prune env n closest))]\<rparr>)
         \<and> set (drop (nat K) (channel_indices_to_prune env n closest))
             \<inter> set (take (nat K) (channel_indices_to_prune env n closest)) = {}"
proof -
  define ps where "ps = channel_indices_to_prune env n closest"
  have r: "reconcile env K ps (channel_indices_to_keep env closest) w1 =
             (Inr (take (nat K) ps), w1\<lparr>printed := printed w1 @ discard_messages\<rparr>)"
    using more [folded ps_def] K by (rule reconcile_truncate)
  have l: "length (take (nat K) ps) = nat K" using more K by (simp add: ps_def)
  have "run_pruning_for_conv2d_layer env layer w =
          (Inr (length (take (nat K) ps)),
           w1\<lparr>printed := printed w1 @ discard_messages\<rparr>
             \<lparr>jobs := jobs (w1\<lparr>printed := printed w1 @ discard_messages\<rparr>)
                        @ [Job ''delete_channels'' layer (take (nat K) ps)]\<rparr>)"
    using stage r [unfolded ps_def] unfolding ps_def by (rule run_after_stage)
  then have run: "run_pruning_for_conv2d_layer env layer w =
          (Inr (nat K),
           w1\<lparr>printed := printed w1 @ discard_messages,
              jobs := jobs w1 @ [Job ''delete_channels'' layer (take (nat K) ps)]\<rparr>)"
    using l by simp
  have "distinct ps" using prune_props [OF ok, of n closest] by (simp add: ps_def)
  then have "distinct (take (nat K) ps @ drop (nat K) ps)" by simp
  then have "set (drop (nat K) ps) \<inter> set (take (nat K) ps) = {}"
    unfolding distinct_append by blast
  then show ?thesis using run by (simp add: ps_def)
qed

theorem truncation_takes_first_K_witness:
  "cluster_stage (stub_env 1 (Inr [2])) (conv_layer 4 [10, 20, 30, 40]) world0 =
     (Inr (4, 1, [2]), world0\<lparr>rng := 2\<rparr>)
   \<and> set_to_list_ok (stub_env 1 (Inr [2]))
   \<and> (0::int) \<le> 1
   \<and> 1 < int (length (channel_indices_to_prune (stub_env 1 (Inr [2])) 4 [2]))
   \<and> run_pruning_for_conv2d_layer (stub_env 1 (Inr [2])) (conv_layer 4 [10, 20, 30, 40]) world0 =
       (Inr 1, \<lparr>rng = 2, printed = discard_messages,
                jobs = [Job ''delete_channels'' (conv_layer 4 [10, 20, 30, 40]) [0]]\<rparr>)"
proof -
  have st: "cluster_stage (stub_env 1 (Inr [2])) (conv_layer 4 [10, 20, 30, 40]) world0 =
     (Inr (4, 1, [2]), world0\<lparr>rng := 2\<rparr>)"
    by (rule stub_stage) simp
  have m: "1 < int (length (channel_indices_to_prune (stub_env 1 (Inr [2])) 4 [2]))"
    by (simp add: stub_prune_4_2)
  show ?thesis
    using truncation_takes_first_K [OF st stub_set_to_list_ok _ m] st m
      stub_set_to_list_ok [of 1 "Inr [2]"]
    by (simp add: stub_prune_4_2 world0_def)
qed

text \<open>
  C7. When the clustering stage has returned representatives that are row indices and the
  initial prune list is shorter than the target \<open>K \<le> n\<close>, the method does not raise: it
  returns \<open>K\<close> and submits the initial prune list followed by added indices, which are
  members of the keep list, distinct, and not already in the prune list, so that the
  submitted list has exactly \<open>K\<close> elements. The branch prints its two messages and nothing
  else.
\<close>

theorem shortfall_filled_from_keep:
  assumes stage: "cluster_stage env layer w = (Inr (n, K, closest), w1)"
    and range: "set closest \<subseteq> {..<n}"
    and ok: "set_to_list_ok env" and sh: "shuffle_ok env"
    and less: "int (length (channel_indices_to_prune env n closest)) < K"
    and K: "K \<le> int n"
  shows "\<exists>added w'. run_pruning_for_conv2d_layer env layer w = (Inr (nat K), w')
           \<and> jobs w' = jobs w1 @ [Job ''delete_channels'' layer
                                     (channel_indices_to_prune env n closest @ added)]
           \<and> set added \<subseteq> set (channel_indices_to_keep env closest)
           \<and> distinct added
           \<and> set added \<inter> set (channel_indices_to_prune env n closest) = {}
           \<and> length (channel_indices_to_prune env n closest @ added) = nat K
           \<and> printed w' = printed w1 @ fill_messages (length added)"
proof -
  define ps where "ps = channel_indices_to_prune env n closest"
  define ks where "ks = channel_indices_to_keep env closest"
  have sp: "set ps = {0..<n} - set closest"
    using prune_props [OF ok, of n closest] by (simp add: ps_def)
  have dk: "distinct ks" and sk: "set ks = set closest"
    using keep_props [OF ok, of closest] by (simp_all add: ks_def)
  have len: "length ps + length ks = n"
    using keep_prune_length [OF ok range] by (simp add: ps_def ks_def)
  obtain shf r where s: "shuffle env ks (rng w1) = (shf, r)" by (cases "shuffle env ks (rng w1)")
  have ls: "length shf = length ks" and ss: "set shf = set ks" and ds: "distinct shf"
    using shuffle_props [OF sh s] dk by simp_all
  define d where "d = nat (K - int (length ps))"
  have dle: "d \<le> length shf" using len K ls less by (simp add: d_def ps_def)
  have lt: "int (length ps) < K" using less by (simp add: ps_def)
  have r: "reconcile env K ps ks w1 =
          (Inr (ps @ take d shf), w1\<lparr>rng := r, printed := printed w1 @ fill_messages d\<rparr>)"
    unfolding d_def using lt s dle [unfolded d_def] by (rule reconcile_fill)
  have la: "length (take d shf) = d" using dle by simp
  have lf: "length (ps @ take d shf) = nat K" using dle lt by (simp add: d_def)
  have "run_pruning_for_conv2d_layer env layer w =
          (Inr (length (ps @ take d shf)),
           w1\<lparr>rng := r, printed := printed w1 @ fill_messages d\<rparr>
             \<lparr>jobs := jobs (w1\<lparr>rng := r, printed := printed w1 @ fill_messages d\<rparr>)
                        @ [Job ''delete_channels'' layer (ps @ take d shf)]\<rparr>)"
    using stage r [unfolded ps_def ks_def] unfolding ps_def by (rule run_after_stage)
  then have run: "run_pruning_for_conv2d_layer env layer w =
          (Inr (nat K),
           w1\<lparr>rng := r, printed := printed w1 @ fill_messages d,
              jobs := jobs w1 @ [Job ''delete_channels'' layer (ps @ take d shf)]\<rparr>)"
    using lf by simp
  have a1: "set (take d shf) \<subseteq> set ks" using set_take_subset [of d shf] ss by simp
  have a2: "distinct (take d shf)" using ds by simp
  have a3: "set (take d shf) \<inter> set ps = {}" using a1 sk sp by auto
  let ?w' = "w1\<lparr>rng := r, printed := printed w1 @ fill_messages d,
              jobs := jobs w1 @ [Job ''delete_channels'' layer (ps @ take d shf)]\<rparr>"
  have "run_pruning_for_conv2d_layer env layer w = (Inr (nat K), ?w')
           \<and> jobs ?w' = jobs w1 @ [Job ''delete_channels'' layer (ps @ take d shf)]
           \<and> set (take d shf) \<subseteq> set ks
           \<and> distinct (take d shf)
           \<and> set (take d shf) \<inter> set ps = {}
           \<and> length (ps @ take d shf) = nat K
           \<and> printed ?w' = printed w1 @ fill_messages (length (take d shf))"
    using run a1 a2 a3 lf la by simp
  then show ?thesis unfolding ps_def ks_def by blast
qed

theorem shortfall_filled_from_keep_witness:
  "cluster_stage (stub_env 3 (Inr [0, 1, 2])) (conv_layer 4 [10, 20, 30, 40]) world0 =
     (Inr (4, 3, [0, 1, 2]), world0\<lparr>rng := 2\<rparr>)
   \<and> set [0, 1, 2] \<subseteq> {..<4::nat}
   \<and> set_to_list_ok (stub_env 3 (Inr [0, 1, 2])) \<and> shuffle_ok (stub_env 3 (Inr [0, 1, 2]))
   \<and> int (length (channel_indices_to_prune (stub_env 3 (Inr [0, 1, 2])) 4 [0, 1, 2])) < 3
   \<and> (3::int) \<le> int 4
   \<and> (\<exists>added w'. run_pruning_for_conv2d_layer (stub_env 3 (Inr [0, 1, 2]))
                    (conv_layer 4 [10, 20, 30, 40]) world0 = (Inr (nat 3), w')
           \<and> jobs w' = [Job ''delete_channels'' (conv_layer 4 [10, 20, 30, 40]) ([3] @ added)]
           \<and> set added \<subseteq> {0, 1, 2} \<and> distinct added \<and> 3 \<notin> set added
           \<and> length ([3] @ added) = nat 3
           \<and> printed w' = fill_messages (length added))"
proof -
  let ?env = "stub_env 3 (Inr [0, 1, 2])"
  have st: "cluster_stage ?env (conv_layer 4 [10, 20, 30, 40]) world0 =
     (Inr (4, 3, [0, 1, 2]), world0\<lparr>rng := 2\<rparr>)"
    by (rule stub_stage) simp
  have sub: "set [0, 1, 2] \<subseteq> {..<4::nat}" by simp
  have l: "int (length (channel_indices_to_prune ?env 4 [0, 1, 2])) < 3"
    unfolding stub_prune_4_012 by simp
  have k: "(3::int) \<le> int 4" by simp
  have "\<exists>added w'. run_pruning_for_conv2d_layer ?env
                    (conv_layer 4 [10, 20, 30, 40]) world0 = (Inr (nat 3), w')
           \<and> jobs w' = [Job ''delete_channels'' (conv_layer 4 [10, 20, 30, 40]) ([3] @ added)]
           \<and> set added \<subseteq> {0, 1, 2} \<and> distinct added \<and> 3 \<notin> set added
           \<and> length ([3] @ added) = nat 3
           \<and> printed w' = fill_messages (length added)"
    using shortfall_filled_from_keep [OF st sub stub_set_to_list_ok stub_shuffle_ok l k]
    unfolding stub_prune_4_012 stub_keep_012
    by (simp add: world0_def) 
  then show ?thesis
    using st sub l stub_set_to_list_ok [of 3 "Inr [0, 1, 2]"] stub_shuffle_ok [of 3 "Inr [0, 1, 2]"]
    by simp
qed

text \<open>
  C9. Before the reconciliation, the keep list and the prune list split the channel
  indices \<open>0 .. n - 1\<close>: together they are all of them, and they share none. The
  representatives are row indices of the \<open>n\<close>-row matrix, as an argmin over its rows gives.
\<close>

theorem keep_prune_partition:
  assumes "set_to_list_ok env" and "set closest \<subseteq> {..<n}"
  shows "set (channel_indices_to_keep env closest) \<union> set (channel_indices_to_prune env n closest)
           = {0..<n}
         \<and> set (channel_indices_to_keep env closest) \<inter> set (channel_indices_to_prune env n closest)
           = {}"
  using keep_props [OF assms(1), of closest] prune_props [OF assms(1), of n closest] assms(2)
  by auto

theorem keep_prune_partition_witness:
  "set_to_list_ok (stub_env 3 (Inr [0, 1, 2])) \<and> set [0, 1, 2] \<subseteq> {..<4::nat}
   \<and> set (channel_indices_to_keep (stub_env 3 (Inr [0, 1, 2])) [0, 1, 2])
       \<union> set (channel_indices_to_prune (stub_env 3 (Inr [0, 1, 2])) 4 [0, 1, 2]) = {0..<4}
   \<and> set (channel_indices_to_keep (stub_env 3 (Inr [0, 1, 2])) [0, 1, 2])
       \<inter> set (channel_indices_to_prune (stub_env 3 (Inr [0, 1, 2])) 4 [0, 1, 2]) = {}"
proof -
  have sub: "set [0, 1, 2] \<subseteq> {..<4::nat}" by simp
  show ?thesis
    using keep_prune_partition [OF stub_set_to_list_ok sub, of 3 "Inr [0, 1, 2]"] sub
      stub_set_to_list_ok [of 3 "Inr [0, 1, 2]"]
    by simp
qed

text \<open>
  C10. Whenever the method returns, the integer it returns is the length of the channel
  list of the one \<open>delete_channels\<close> job it added for the layer, and that length is
  \<open>nb_of_clusters\<close>, the first component of what the helper returned for the number of
  filters of the kernel.
\<close>

theorem returned_count_is_job_length:
  assumes "run_pruning_for_conv2d_layer env layer w = (Inr result, w')"
  shows "\<exists>t ts h wd i n final.
           get_weights layer = t # ts \<and> shape t = [h, wd, i, n]
           \<and> jobs w' = jobs w @ [Job ''delete_channels'' layer final]
           \<and> result = length final
           \<and> int (length final) =
               fst (calculate_number_of_channels_to_keep env (clustering_factor env) n)"
proof -
  obtain n K closest w1 where stage: "cluster_stage env layer w = (Inr (n, K, closest), w1)"
    using assms
    by (auto simp: run_pruning_for_conv2d_layer_def split: sum.splits prod.splits)
  obtain final w2 where
    r: "reconcile env K (channel_indices_to_prune env n closest)
          (channel_indices_to_keep env closest) w1 = (Inr final, w2)"
    using assms stage
    by (auto simp: run_pruning_for_conv2d_layer_def split: sum.splits prod.splits)
  have run: "run_pruning_for_conv2d_layer env layer w =
           (Inr (length final), w2\<lparr>jobs := jobs w2 @ [Job ''delete_channels'' layer final]\<rparr>)"
    using stage r by (rule run_after_stage)
  have res: "result = length final"
    and w': "w' = w2\<lparr>jobs := jobs w2 @ [Job ''delete_channels'' layer final]\<rparr>"
    using run assms by simp_all
  have j: "jobs w' = jobs w @ [Job ''delete_channels'' layer final]"
    using w' reconcile_Inr_jobs [OF r] cluster_stage_Inr [OF stage] by auto
  have l: "int (length final) = K" using r by (rule reconcile_Inr_length)
  show ?thesis using cluster_stage_Inr [OF stage] res j l by blast
qed

theorem returned_count_is_job_length_witness:
  "run_pruning_for_conv2d_layer (stub_env 3 (Inr [0, 1, 2])) (conv_layer 4 [10, 20, 30, 40]) world0 =
     (Inr 3, \<lparr>rng = 3, printed = fill_messages 2,
              jobs = [Job ''delete_channels'' (conv_layer 4 [10, 20, 30, 40]) [3, 2, 1]]\<rparr>)
   \<and> (\<exists>t ts h wd i n final.
           get_weights (conv_layer 4 [10, 20, 30, 40]) = t # ts \<and> shape t = [h, wd, i, n]
           \<and> [Job ''delete_channels'' (conv_layer 4 [10, 20, 30, 40]) [3, 2, 1]] =
               jobs world0 @ [Job ''delete_channels'' (conv_layer 4 [10, 20, 30, 40]) final]
           \<and> (3::nat) = length final
           \<and> int (length final) =
               fst (calculate_number_of_channels_to_keep (stub_env 3 (Inr [0, 1, 2]))
                      (clustering_factor (stub_env 3 (Inr [0, 1, 2]))) n))"
  using returned_count_is_job_length [OF stub_run_fill] stub_run_fill by simp

end
